theory Spec2Isabelle
  imports Main "HOL-Library.AList" "HOL-Library.Word"
begin

section \<open>The Redis device manager of adam (pkg/driver/device\_manager\_redis.go)\<close>

text \<open>
  The development embeds \<^verbatim>\<open>DeviceManagerRedis\<close>: its in-memory trust cache, the TTL
  refresh from the backing store, onboarding authorisation, device registration and
  removal, the configuration store and the telemetry streams.

  Conventions of the embedding:
  \<^item> a Go \<^verbatim>\<open>map\<close> is an association list with one pair per key; the order of the
    list is the order in which a \<^verbatim>\<open>range\<close> loop visits it. Go leaves that order
    unspecified, and every general theorem below holds for every order;
  \<^item> a \<^verbatim>\<open>nil\<close> pointer or map is \<open>None\<close>;
  \<^item> an operation ends in one of three ways: it panics, it returns an error, or it
    returns a result (\<open>outcome\<close>);
  \<^item> everything outside the file (Redis, the wall clock, the random source of
    \<^verbatim>\<open>uuid.NewV4\<close>) is the \<open>world\<close>, passed in and returned;
  \<^item> the library codecs (PEM, X.509, msgpack, JSON, UUID text) are a parameter
    \<open>K\<close> of every operation.
\<close>

subsection \<open>Values\<close>

type_synonym bytes = string

text \<open>\<^verbatim>\<open>uuid.UUID\<close> is \<^verbatim>\<open>[16]byte\<close>.\<close>
type_synonym uuid = "128 word"

text \<open>The fields of \<^verbatim>\<open>x509.Certificate\<close> that the file reads.\<close>
record certificate =
  Raw :: bytes
  CommonName :: string

text \<open>\<^verbatim>\<open>config.EdgeDevConfig\<close>: \<open>Id\<close> is \<^verbatim>\<open>m.Id.Uuid\<close> when \<^verbatim>\<open>m.Id\<close> is not nil;
  the rest of the document is opaque.\<close>
record edgeDevConfig =
  Id :: "string option"
  body :: string

text \<open>A telemetry message (\<^verbatim>\<open>logs.LogBundle\<close>, \<^verbatim>\<open>info.ZInfoMsg\<close>,
  \<^verbatim>\<open>metrics.ZMetricMsg\<close>): the device id it carries and an opaque payload.\<close>
record message =
  DevID :: string
  payload :: string

text \<open>\<^verbatim>\<open>deviceStorage\<close>, the value type of the \<^verbatim>\<open>devices\<close> cache.\<close>
record deviceStorage =
  onboard :: "certificate option"
  serial :: string

definition emptyStorage :: deviceStorage where
  "emptyStorage = \<lparr>onboard = None, serial = []\<rparr>"

text \<open>An element of a stream, as \<^verbatim>\<open>mkStreamEntry\<close> builds it.\<close>
record streamEntry =
  version :: string
  object :: string

definition mkStreamEntry :: "bytes \<Rightarrow> streamEntry" where
  "mkStreamEntry b = \<lparr>version = ''1'', object = b\<rparr>"

subsection \<open>Library codecs\<close>

text \<open>
  Functions of Go libraries and of adam's own \<^verbatim>\<open>pkg/x509\<close> that the file calls and
  does not define. \<open>None\<close> is the library's error return, except for \<open>pemDecode\<close>,
  where it is the \<^verbatim>\<open>nil\<close> block that \<^verbatim>\<open>pem.Decode\<close> returns when it finds no PEM data.
\<close>
record codec =
  pemDecode :: "bytes \<Rightarrow> bytes option"
  parseCertificate :: "bytes \<Rightarrow> certificate option"
  pemEncodeCert :: "bytes \<Rightarrow> bytes"
  parseCert :: "bytes \<Rightarrow> certificate option"
  uuidFromString :: "string \<Rightarrow> uuid option"
  uuidString :: "uuid \<Rightarrow> string"
  unmarshalSerials :: "bytes \<Rightarrow> string list option"
  marshalConfig :: "edgeDevConfig \<Rightarrow> bytes option"
  unmarshalConfig :: "bytes \<Rightarrow> edgeDevConfig option"
  jsonMarshal :: "message \<Rightarrow> bytes option"

subsection \<open>Errors and outcomes\<close>

text \<open>One constructor for each error the file builds, named after its message or type.\<close>
datatype error =
    NilCertificate
  | RefreshFailed error
  | InvalidSerialError
  | InvalidCertError
  | UsedSerialError
  | RetrieveFailed string
  | ConvertCertFailed bytes
  | GetSerialFailed string
  | UnmarshalSerialsFailed bytes
  | ConvertUuidFailed string
  | EmptyUUID
  | ReadCertFailed string string
  | DecodeCertFailed string string
  | DeviceAlreadyRegistered
  | GenerateUuidFailed
  | EmptyCertPath
  | CertificateExists
  | WriteCertFailed
  | SaveSerialFailed
  | MarshalProtoFailed
  | SaveProtoFailed
  | SaveDeviceConfigFailed error
  | CreateStreamFailed string
  | DropFailed
  | RemoveDeviceFailed error
  | RefreshDeviceCacheFailed error
  | NilMessage
  | InvalidDeviceUUID string
  | MarshalMessageFailed
  | PutMessageFailed string
  | StreamWriteFailed error
  | MarshalConfigFailed
  | SaveConfigFailed
  | UnmarshalConfigFailed
  | EmptyConfiguration
  | MismatchedUUID
  | UnregisteredDevice

datatype 'a outcome = Panics | Fails error | Returns 'a

subsection \<open>The world: Redis, the clock, the random source\<close>

text \<open>
  \<open>hashes\<close> gives the fields of each Redis hash (a hash without fields does not exist),
  \<open>streams\<close> the entries of each stream. \<open>faults\<close> is the schedule of I/O failures:
  each command sent to Redis consumes its head, and fails without effect when the head is
  \<open>True\<close>; an empty schedule means no further failure. \<open>now\<close> is the last clock
  reading in nanoseconds and \<open>ticks\<close> the time that passes before each further reading,
  so the clock never runs backwards. \<open>rng\<close> holds the results of the coming
  \<^verbatim>\<open>uuid.NewV4\<close> calls, \<open>None\<close> for a failing one.
\<close>
record world =
  hashes :: "string \<Rightarrow> (string \<times> string) list"
  streams :: "string \<Rightarrow> streamEntry list option"
  faults :: "bool list"
  now :: int
  ticks :: "nat list"
  rng :: "uuid option list"

datatype redisError = RedisNil | RedisIO

definition fault :: "world \<Rightarrow> bool \<times> world" where
  "fault w = (case faults w of [] \<Rightarrow> (False, w) | b # bs \<Rightarrow> (b, w\<lparr>faults := bs\<rparr>))"

definition timeNow :: "world \<Rightarrow> int \<times> world" where
  "timeNow w =
     (case ticks w of
        [] \<Rightarrow> (now w, w)
      | t # ts \<Rightarrow> (now w + int t, w\<lparr>now := now w + int t, ticks := ts\<rparr>))"

definition NewV4 :: "world \<Rightarrow> uuid option \<times> world" where
  "NewV4 w = (case rng w of [] \<Rightarrow> (None, w) | r # rs \<Rightarrow> (r, w\<lparr>rng := rs\<rparr>))"

definition HGet :: "string \<Rightarrow> string \<Rightarrow> world \<Rightarrow> (redisError + string) \<times> world" where
  "HGet h k w =
     (let (f, w') = fault w in
      if f then (Inl RedisIO, w')
      else case map_of (hashes w' h) k of
             None \<Rightarrow> (Inl RedisNil, w')
           | Some v \<Rightarrow> (Inr v, w'))"

definition HGetAll :: "string \<Rightarrow> world \<Rightarrow> (redisError + (string \<times> string) list) \<times> world" where
  "HGetAll h w =
     (let (f, w') = fault w in
      if f then (Inl RedisIO, w') else (Inr (hashes w' h), w'))"

text \<open>\<^verbatim>\<open>HSet\<close> answers whether the field is new.\<close>
definition HSet :: "string \<Rightarrow> string \<Rightarrow> string \<Rightarrow> world \<Rightarrow> (redisError + bool) \<times> world" where
  "HSet h k v w =
     (let (f, w') = fault w in
      if f then (Inl RedisIO, w')
      else (Inr (map_of (hashes w' h) k = None),
            w'\<lparr>hashes := (hashes w')(h := AList.update k v (hashes w' h))\<rparr>))"

text \<open>\<^verbatim>\<open>HDel\<close> and \<^verbatim>\<open>Del\<close> answer the number of fields or keys they removed.\<close>
definition HDel :: "string \<Rightarrow> string \<Rightarrow> world \<Rightarrow> (redisError + int) \<times> world" where
  "HDel h k w =
     (let (f, w') = fault w in
      if f then (Inl RedisIO, w')
      else (Inr (if map_of (hashes w' h) k = None then 0 else 1),
            w'\<lparr>hashes := (hashes w')(h := AList.delete k (hashes w' h))\<rparr>))"

definition Del :: "string \<Rightarrow> world \<Rightarrow> (redisError + int) \<times> world" where
  "Del k w =
     (let (f, w') = fault w in
      if f then (Inl RedisIO, w')
      else (Inr (if hashes w' k = [] \<and> streams w' k = None then 0 else 1),
            w'\<lparr>hashes := (hashes w')(k := []), streams := (streams w')(k := None)\<rparr>))"

text \<open>\<^verbatim>\<open>XAdd\<close> appends; with a length bound the oldest entries beyond it are trimmed
  (Redis trims approximately and never below the bound).\<close>
definition XAdd :: "string \<Rightarrow> nat option \<Rightarrow> streamEntry \<Rightarrow> world \<Rightarrow> (redisError + unit) \<times> world" where
  "XAdd s maxLen e w =
     (let (f, w') = fault w in
      if f then (Inl RedisIO, w')
      else
        let es = (case streams w' s of None \<Rightarrow> [] | Some old \<Rightarrow> old) @ [e];
            es' = (case maxLen of None \<Rightarrow> es | Some n \<Rightarrow> drop (length es - n) es)
        in (Inr (), w'\<lparr>streams := (streams w')(s := Some es')\<rparr>))"

definition Save :: "world \<Rightarrow> (redisError + unit) \<times> world" where
  "Save w = (let (f, w') = fault w in if f then (Inl RedisIO, w') else (Inr (), w'))"

subsection \<open>The manager\<close>

definition onboardCertsHash :: string where "onboardCertsHash = ''ONBOARD_CERTS''"
definition onboardSerialsHash :: string where "onboardSerialsHash = ''ONBOARD_SERIALS''"
definition deviceSerialsHash :: string where "deviceSerialsHash = ''DEVICE_SERIALS''"
definition deviceOnboardCertsHash :: string where "deviceOnboardCertsHash = ''DEVICE_ONBOARD_CERTS''"
definition deviceCertsHash :: string where "deviceCertsHash = ''DEVICE_CERTS''"
definition deviceConfigsHash :: string where "deviceConfigsHash = ''DEVICE_CONFIGS''"
definition deviceLogsStream :: string where "deviceLogsStream = ''LOGS_EVE_''"
definition deviceInfoSteram :: string where "deviceInfoSteram = ''INFO_EVE_''"
definition deviceMetricsStream :: string where "deviceMetricsStream = ''METRICS_EVE_''"

text \<open>
  The cache fields of \<^verbatim>\<open>DeviceManagerRedis\<close>. \<open>cacheTimeout\<close> is in seconds,
  \<open>lastUpdate\<close> in nanoseconds. The inner \<^verbatim>\<open>map[string]bool\<close> of \<open>onboardCerts\<close> only
  ever holds \<^verbatim>\<open>true\<close>, so it is the set of its keys.
\<close>
record manager =
  cacheTimeout :: int
  lastUpdate :: int
  onboardCerts :: "(bytes \<times> string set) list option"
  deviceCerts :: "(bytes \<times> uuid) list option"
  devices :: "(uuid \<times> deviceStorage) list option"

text \<open>Reading a Go map: a \<^verbatim>\<open>nil\<close> map reads as an empty one.\<close>
definition lookupM :: "('k \<times> 'v) list option \<Rightarrow> 'k \<Rightarrow> 'v option" where
  "lookupM m k = (case m of None \<Rightarrow> None | Some al \<Rightarrow> map_of al k)"

definition rangeM :: "('k \<times> 'v) list option \<Rightarrow> ('k \<times> 'v) list" where
  "rangeM m = (case m of None \<Rightarrow> [] | Some al \<Rightarrow> al)"

subsection \<open>refreshCache\<close>

text \<open>\<^verbatim>\<open>onboardCerts[certStr][serial] = true\<close>\<close>
definition addSerial :: "bytes \<Rightarrow> (bytes \<times> string set) list \<Rightarrow> string \<Rightarrow> (bytes \<times> string set) list" where
  "addSerial certStr m s =
     (case map_of m certStr of
        None \<Rightarrow> m
      | Some c \<Rightarrow> AList.update certStr (insert s c) m)"

text \<open>The loop over \<^verbatim>\<open>ocerts\<close> (lines 612-634). \<^verbatim>\<open>certPem.Bytes\<close> on the \<^verbatim>\<open>nil\<close>
  block panics.\<close>
fun scanOnboardCerts ::
  "codec \<Rightarrow> (string \<times> string) list \<Rightarrow> (bytes \<times> string set) list \<Rightarrow> world
    \<Rightarrow> (bytes \<times> string set) list outcome \<times> world" where
  "scanOnboardCerts K [] acc w = (Returns acc, w)"
| "scanOnboardCerts K ((u, c) # rest) acc w =
     (case pemDecode K c of
        None \<Rightarrow> (Panics, w)
      | Some der \<Rightarrow>
     (case parseCertificate K der of
        None \<Rightarrow> (Fails (ConvertCertFailed c), w)
      | Some cert \<Rightarrow>
     (let acc1 = AList.update (Raw cert) {} acc in
     (case HGet onboardSerialsHash u w of
        (Inl e, w1) \<Rightarrow> (Fails (GetSerialFailed u), w1)
      | (Inr v, w1) \<Rightarrow>
     (case unmarshalSerials K v of
        None \<Rightarrow> (Fails (UnmarshalSerialsFailed v), w1)
      | Some serials \<Rightarrow>
          scanOnboardCerts K rest (foldl (addSerial (Raw cert)) acc1 serials) w1)))))"

text \<open>The loop over \<^verbatim>\<open>dcerts\<close> (lines 645-661).\<close>
fun scanDeviceCerts ::
  "codec \<Rightarrow> (string \<times> string) list \<Rightarrow> (bytes \<times> uuid) list \<Rightarrow> (uuid \<times> deviceStorage) list
    \<Rightarrow> ((bytes \<times> uuid) list \<times> (uuid \<times> deviceStorage) list) outcome" where
  "scanDeviceCerts K [] dc dv = Returns (dc, dv)"
| "scanDeviceCerts K ((k, c) # rest) dc dv =
     (case uuidFromString K k of
        None \<Rightarrow> Fails (ConvertUuidFailed k)
      | Some u \<Rightarrow>
     (case pemDecode K c of
        None \<Rightarrow> Panics
      | Some der \<Rightarrow>
     (case parseCertificate K der of
        None \<Rightarrow> Fails (ConvertCertFailed c)
      | Some cert \<Rightarrow>
          scanDeviceCerts K rest (AList.update (Raw cert) u dc) (AList.update u emptyStorage dv))))"

text \<open>\<^verbatim>\<open>if _, present := devices[u]; !present { devices[u] = deviceStorage{} }\<close>
  followed by \<^verbatim>\<open>devItem := devices[u]\<close>.\<close>
definition devItem :: "(uuid \<times> deviceStorage) list \<Rightarrow> uuid \<Rightarrow> deviceStorage" where
  "devItem dv u = (case map_of dv u of None \<Rightarrow> emptyStorage | Some x \<Rightarrow> x)"

text \<open>The loop over \<^verbatim>\<open>docerts\<close> (lines 672-690).\<close>
fun scanDeviceOnboardCerts ::
  "codec \<Rightarrow> (string \<times> string) list \<Rightarrow> (uuid \<times> deviceStorage) list
    \<Rightarrow> (uuid \<times> deviceStorage) list outcome" where
  "scanDeviceOnboardCerts K [] dv = Returns dv"
| "scanDeviceOnboardCerts K ((k, b) # rest) dv =
     (case uuidFromString K k of
        None \<Rightarrow> Fails (ConvertUuidFailed k)
      | Some u \<Rightarrow>
     (case pemDecode K b of
        None \<Rightarrow> Panics
      | Some der \<Rightarrow>
     (case parseCertificate K der of
        None \<Rightarrow> Fails (ConvertCertFailed b)
      | Some cert \<Rightarrow>
          scanDeviceOnboardCerts K rest
            (AList.update u ((devItem dv u)\<lparr>onboard := Some cert\<rparr>) dv))))"

text \<open>The loop over \<^verbatim>\<open>dserials\<close> (lines 698-710).\<close>
fun scanDeviceSerials ::
  "codec \<Rightarrow> (string \<times> string) list \<Rightarrow> (uuid \<times> deviceStorage) list
    \<Rightarrow> (uuid \<times> deviceStorage) list outcome" where
  "scanDeviceSerials K [] dv = Returns dv"
| "scanDeviceSerials K ((k, s) # rest) dv =
     (case uuidFromString K k of
        None \<Rightarrow> Fails (ConvertUuidFailed k)
      | Some u \<Rightarrow>
          scanDeviceSerials K rest (AList.update u ((devItem dv u)\<lparr>serial := s\<rparr>) dv))"

text \<open>
  \<^verbatim>\<open>now.Sub(d.lastUpdate).Seconds() < float64(d.cacheTimeout)\<close>, compared exactly in
  nanoseconds. Each cache field is assigned where the source assigns it:
  \<open>onboardCerts\<close> after the first loop, \<open>deviceCerts\<close> after the second,
  \<open>devices\<close> and \<open>lastUpdate\<close> at the end.
\<close>
definition refreshCache :: "codec \<Rightarrow> manager \<Rightarrow> world \<Rightarrow> unit outcome \<times> manager \<times> world" where
  "refreshCache K d w =
     (let (t, w0) = timeNow w in
      if t - lastUpdate d < cacheTimeout d * 1000000000 then (Returns (), d, w0)
      else
     (case HGetAll onboardCertsHash w0 of
        (Inl e, w1) \<Rightarrow> (Fails (RetrieveFailed onboardCertsHash), d, w1)
      | (Inr ocerts, w1) \<Rightarrow>
     (case scanOnboardCerts K ocerts [] w1 of
        (Panics, w2) \<Rightarrow> (Panics, d, w2)
      | (Fails e, w2) \<Rightarrow> (Fails e, d, w2)
      | (Returns oc, w2) \<Rightarrow>
     (let d1 = d\<lparr>onboardCerts := Some oc\<rparr> in
     (case HGetAll deviceCertsHash w2 of
        (Inl e, w3) \<Rightarrow> (Fails (RetrieveFailed deviceCertsHash), d1, w3)
      | (Inr dcerts, w3) \<Rightarrow>
     (case scanDeviceCerts K dcerts [] [] of
        Panics \<Rightarrow> (Panics, d1, w3)
      | Fails e \<Rightarrow> (Fails e, d1, w3)
      | Returns (dc, dv1) \<Rightarrow>
     (let d2 = d1\<lparr>deviceCerts := Some dc\<rparr> in
     (case HGetAll deviceOnboardCertsHash w3 of
        (Inl e, w4) \<Rightarrow> (Fails (RetrieveFailed deviceCertsHash), d2, w4)
      | (Inr docerts, w4) \<Rightarrow>
     (case scanDeviceOnboardCerts K docerts dv1 of
        Panics \<Rightarrow> (Panics, d2, w4)
      | Fails e \<Rightarrow> (Fails e, d2, w4)
      | Returns dv2 \<Rightarrow>
     (case HGetAll deviceSerialsHash w4 of
        (Inl e, w5) \<Rightarrow> (Fails (RetrieveFailed deviceCertsHash), d2, w5)
      | (Inr dserials, w5) \<Rightarrow>
     (case scanDeviceSerials K dserials dv2 of
        Panics \<Rightarrow> (Panics, d2, w5)
      | Fails e \<Rightarrow> (Fails e, d2, w5)
      | Returns dv3 \<Rightarrow>
          (Returns (), d2\<lparr>devices := Some dv3, lastUpdate := t\<rparr>, w5))))))))))))"

subsection \<open>Onboarding authorisation\<close>

text \<open>\<^verbatim>\<open>checkValidOnboardSerial\<close>: \<open>None\<close> is the \<^verbatim>\<open>nil\<close> error.\<close>
definition checkValidOnboardSerial :: "manager \<Rightarrow> certificate \<Rightarrow> string \<Rightarrow> error option" where
  "checkValidOnboardSerial d cert s =
     (case lookupM (onboardCerts d) (Raw cert) of
        Some c \<Rightarrow>
          if s \<in> c then None
          else if ''*'' \<in> c then None
          else Some InvalidSerialError
      | None \<Rightarrow> Some InvalidCertError)"

text \<open>The loop of \<^verbatim>\<open>getOnboardSerialDevice\<close>: \<^verbatim>\<open>dev.onboard.Raw\<close> on a \<^verbatim>\<open>nil\<close>
  onboarding certificate panics.\<close>
fun scanDevices :: "bytes \<Rightarrow> string \<Rightarrow> (uuid \<times> deviceStorage) list \<Rightarrow> uuid option outcome" where
  "scanDevices certStr s [] = Returns None"
| "scanDevices certStr s ((uid, dev) # rest) =
     (case onboard dev of
        None \<Rightarrow> Panics
      | Some oc \<Rightarrow>
          if Raw oc = certStr \<and> s = serial dev then Returns (Some uid)
          else scanDevices certStr s rest)"

definition getOnboardSerialDevice :: "manager \<Rightarrow> certificate \<Rightarrow> string \<Rightarrow> uuid option outcome" where
  "getOnboardSerialDevice d cert s = scanDevices (Raw cert) s (rangeM (devices d))"

definition OnboardCheck ::
  "codec \<Rightarrow> certificate option \<Rightarrow> string \<Rightarrow> manager \<Rightarrow> world \<Rightarrow> unit outcome \<times> manager \<times> world" where
  "OnboardCheck K cert s d w =
     (case cert of
        None \<Rightarrow> (Fails NilCertificate, d, w)
      | Some c \<Rightarrow>
     (case refreshCache K d w of
        (Panics, d1, w1) \<Rightarrow> (Panics, d1, w1)
      | (Fails e, d1, w1) \<Rightarrow> (Fails (RefreshFailed e), d1, w1)
      | (Returns _, d1, w1) \<Rightarrow>
     (case checkValidOnboardSerial d1 c s of
        Some e \<Rightarrow> (Fails e, d1, w1)
      | None \<Rightarrow>
     (case getOnboardSerialDevice d1 c s of
        Panics \<Rightarrow> (Panics, d1, w1)
      | Fails e \<Rightarrow> (Fails e, d1, w1)
      | Returns (Some uid) \<Rightarrow> (Fails UsedSerialError, d1, w1)
      | Returns None \<Rightarrow> (Returns (), d1, w1)))))"

subsection \<open>Device registry\<close>

text \<open>\<^verbatim>\<open>DeviceCheckCert\<close>: \<open>Returns None\<close> is the \<^verbatim>\<open>nil, nil\<close> "not found" answer.\<close>
definition DeviceCheckCert ::
  "codec \<Rightarrow> certificate option \<Rightarrow> manager \<Rightarrow> world \<Rightarrow> uuid option outcome \<times> manager \<times> world" where
  "DeviceCheckCert K cert d w =
     (case cert of
        None \<Rightarrow> (Fails NilCertificate, d, w)
      | Some c \<Rightarrow>
     (case refreshCache K d w of
        (Panics, d1, w1) \<Rightarrow> (Panics, d1, w1)
      | (Fails e, d1, w1) \<Rightarrow> (Fails (RefreshFailed e), d1, w1)
      | (Returns _, d1, w1) \<Rightarrow> (Returns (lookupM (deviceCerts d1) (Raw c)), d1, w1)))"

text \<open>The loop of \<^verbatim>\<open>transactionDrop\<close>; \<open>result\<close> is the error so far. On an I/O
  error the count is 0.\<close>
fun dropEach :: "string list list \<Rightarrow> error option \<Rightarrow> world \<Rightarrow> error option outcome \<times> world" where
  "dropEach [] result w = (Returns result, w)"
| "dropEach (k # ks) result w =
     (case k of
        [k0] \<Rightarrow>
          (case Del k0 w of
             (r, w1) \<Rightarrow> dropEach ks (if r = Inr 1 then result else Some DropFailed) w1)
      | [k0, k1] \<Rightarrow>
          (case HDel k0 k1 w of
             (r, w1) \<Rightarrow> dropEach ks (if r = Inr 1 then result else Some DropFailed) w1)
      | _ \<Rightarrow> (Panics, w))"

definition transactionDrop :: "string list list \<Rightarrow> world \<Rightarrow> error option outcome \<times> world" where
  "transactionDrop keys w = dropEach keys None w"

text \<open>\<^verbatim>\<open>DeviceRemove\<close> takes a pointer and calls \<^verbatim>\<open>u.String()\<close> at once.\<close>
definition DeviceRemove ::
  "codec \<Rightarrow> uuid option \<Rightarrow> manager \<Rightarrow> world \<Rightarrow> unit outcome \<times> manager \<times> world" where
  "DeviceRemove K u d w =
     (case u of
        None \<Rightarrow> (Panics, d, w)
      | Some uu \<Rightarrow>
     (let k = uuidString K uu in
     (case transactionDrop
             [[deviceCertsHash, k], [deviceConfigsHash, k], [deviceOnboardCertsHash, k],
              [deviceSerialsHash, k], [deviceInfoSteram @ k], [deviceLogsStream @ k],
              [deviceMetricsStream @ k]] w of
        (Panics, w1) \<Rightarrow> (Panics, d, w1)
      | (Fails e, w1) \<Rightarrow> (Fails (RemoveDeviceFailed e), d, w1)
      | (Returns (Some e), w1) \<Rightarrow> (Fails (RemoveDeviceFailed e), d, w1)
      | (Returns None, w1) \<Rightarrow>
     (case refreshCache K d w1 of
        (Panics, d2, w2) \<Rightarrow> (Panics, d2, w2)
      | (Fails e, d2, w2) \<Rightarrow> (Fails (RefreshDeviceCacheFailed e), d2, w2)
      | (Returns _, d2, w2) \<Rightarrow> (Returns (), d2, w2)))))"

definition DeviceList :: "codec \<Rightarrow> manager \<Rightarrow> world \<Rightarrow> uuid list outcome \<times> manager \<times> world" where
  "DeviceList K d w =
     (case refreshCache K d w of
        (Panics, d1, w1) \<Rightarrow> (Panics, d1, w1)
      | (Fails e, d1, w1) \<Rightarrow> (Fails (RefreshFailed e), d1, w1)
      | (Returns _, d1, w1) \<Rightarrow> (Returns (map fst (rangeM (devices d1))), d1, w1))"



definition writeCert ::
  "codec \<Rightarrow> bytes \<Rightarrow> string \<Rightarrow> string \<Rightarrow> bool \<Rightarrow> world \<Rightarrow> error option \<times> world" where
  "writeCert K cert h k force w =
     (if h = [] then (Some EmptyCertPath, w)
      else
     (case HGet h k w of
        (r, w1) \<Rightarrow>
     (if \<not> isl r \<and> \<not> force then (Some CertificateExists, w1)
      else
     (case HSet h k (pemEncodeCert K cert) w1 of
        (Inl e, w2) \<Rightarrow> (Some WriteCertFailed, w2)
      | (Inr b, w2) \<Rightarrow>
     (if \<not> b \<and> \<not> force then (Some WriteCertFailed, w2)
      else
     (case Save w2 of
        (Inl e, w3) \<Rightarrow> (Some WriteCertFailed, w3)
      | (Inr _, w3) \<Rightarrow> (None, w3)))))))"

definition writeProtobufToJSONMsgPack ::
  "codec \<Rightarrow> uuid \<Rightarrow> string \<Rightarrow> edgeDevConfig \<Rightarrow> world \<Rightarrow> error option \<times> world" where
  "writeProtobufToJSONMsgPack K u h msg w =
     (case marshalConfig K msg of
        None \<Rightarrow> (Some MarshalProtoFailed, w)
      | Some s \<Rightarrow>
     (case HSet h (uuidString K u) s w of
        (Inl e, w1) \<Rightarrow> (Some SaveProtoFailed, w1)
      | (Inr _, w1) \<Rightarrow>
     (case Save w1 of
        (Inl e, w2) \<Rightarrow> (Some SaveProtoFailed, w2)
      | (Inr _, w2) \<Rightarrow> (None, w2))))"

text \<open>Modelled from the spec: \<^verbatim>\<open>createBaseConfig\<close> is defined elsewhere in the
  package. The specification describes its result as "a base config document
  (self-referential UUID field set)"; nothing else is said of its content.\<close>
definition createBaseConfig :: "codec \<Rightarrow> uuid \<Rightarrow> edgeDevConfig" where
  "createBaseConfig K u = \<lparr>Id = Some (uuidString K u), body = []\<rparr>"

text \<open>The \<^verbatim>\<open>HSet\<close> and \<^verbatim>\<open>Save\<close> of the device serial (lines 355-360).\<close>
definition saveSerial :: "codec \<Rightarrow> uuid \<Rightarrow> string \<Rightarrow> world \<Rightarrow> error option \<times> world" where
  "saveSerial K unew s w =
     (case HSet deviceSerialsHash (uuidString K unew) s w of
        (Inl e, w1) \<Rightarrow> (Some SaveSerialFailed, w1)
      | (Inr _, w1) \<Rightarrow>
     (case Save w1 of
        (Inl e, w2) \<Rightarrow> (Some SaveSerialFailed, w2)
      | (Inr _, w2) \<Rightarrow> (None, w2)))"

text \<open>The loop that seeds the three streams (lines 370-381).\<close>
fun createStreams :: "codec \<Rightarrow> uuid \<Rightarrow> string list \<Rightarrow> world \<Rightarrow> error option \<times> world" where
  "createStreams K unew [] w = (None, w)"
| "createStreams K unew (p # ps) w =
     (case XAdd (p @ uuidString K unew) (Some 10000) (mkStreamEntry []) w of
        (Inl e, w1) \<Rightarrow> (Some (CreateStreamFailed (p @ uuidString K unew)), w1)
      | (Inr _, w1) \<Rightarrow> createStreams K unew ps w1)"

text \<open>\<^verbatim>\<open>DeviceRegister\<close>. \<^verbatim>\<open>DeviceCheckCert\<close> has rejected the \<^verbatim>\<open>nil\<close> certificate
  before \<^verbatim>\<open>cert.Raw\<close> is read. Writing into a \<^verbatim>\<open>nil\<close> cache map panics.\<close>
definition DeviceRegister ::
  "codec \<Rightarrow> certificate option \<Rightarrow> certificate option \<Rightarrow> string \<Rightarrow> manager \<Rightarrow> world
    \<Rightarrow> uuid outcome \<times> manager \<times> world" where
  "DeviceRegister K cert ob s d w =
     (case refreshCache K d w of
        (Panics, d1, w1) \<Rightarrow> (Panics, d1, w1)
      | (Fails e, d1, w1) \<Rightarrow> (Fails (RefreshFailed e), d1, w1)
      | (Returns _, d1, w1) \<Rightarrow>
     (case DeviceCheckCert K cert d1 w1 of
        (Panics, d2, w2) \<Rightarrow> (Panics, d2, w2)
      | (Fails e, d2, w2) \<Rightarrow> (Fails e, d2, w2)
      | (Returns (Some u), d2, w2) \<Rightarrow> (Fails DeviceAlreadyRegistered, d2, w2)
      | (Returns None, d2, w2) \<Rightarrow>
     (case NewV4 w2 of
        (None, w3) \<Rightarrow> (Fails GenerateUuidFailed, d2, w3)
      | (Some unew, w3) \<Rightarrow>
     (case cert of
        None \<Rightarrow> (Panics, d2, w3)
      | Some c \<Rightarrow>
     (case writeCert K (Raw c) deviceCertsHash (uuidString K unew) True w3 of
        (Some e, w4) \<Rightarrow> (Fails e, d2, w4)
      | (None, w4) \<Rightarrow>
     (case (case ob of
              None \<Rightarrow> (None, w4)
            | Some oc \<Rightarrow> writeCert K (Raw oc) deviceOnboardCertsHash (uuidString K unew) True w4) of
        (Some e, w5) \<Rightarrow> (Fails e, d2, w5)
      | (None, w5) \<Rightarrow>
     (case (if s \<noteq> [] then saveSerial K unew s w5 else (None, w5)) of
        (Some e, w6) \<Rightarrow> (Fails e, d2, w6)
      | (None, w6) \<Rightarrow>
     (case writeProtobufToJSONMsgPack K unew deviceConfigsHash (createBaseConfig K unew) w6 of
        (Some e, w7) \<Rightarrow> (Fails (SaveDeviceConfigFailed e), d2, w7)
      | (None, w7) \<Rightarrow>
     (case createStreams K unew [deviceInfoSteram, deviceMetricsStream, deviceLogsStream] w7 of
        (Some e, w8) \<Rightarrow> (Fails e, d2, w8)
      | (None, w8) \<Rightarrow>
     (case deviceCerts d2 of
        None \<Rightarrow> (Panics, d2, w8)
      | Some dc \<Rightarrow>
     (let d3 = d2\<lparr>deviceCerts := Some (AList.update (Raw c) unew dc)\<rparr> in
     (case devices d3 of
        None \<Rightarrow> (Panics, d3, w8)
      | Some dv \<Rightarrow>
          (Returns unew,
           d3\<lparr>devices := Some (AList.update unew \<lparr>onboard = ob, serial = s\<rparr> dv)\<rparr>,
           w8)))))))))))))"

subsection \<open>Telemetry streams\<close>

definition writeProtobufToStream :: "codec \<Rightarrow> string \<Rightarrow> message \<Rightarrow> world \<Rightarrow> error option \<times> world" where
  "writeProtobufToStream K stream msg w =
     (case jsonMarshal K msg of
        None \<Rightarrow> (Some MarshalMessageFailed, w)
      | Some buf \<Rightarrow>
     (case XAdd stream None (mkStreamEntry buf) w of
        (Inl e, w1) \<Rightarrow> (Some (PutMessageFailed stream), w1)
      | (Inr _, w1) \<Rightarrow> (None, w1)))"

text \<open>\<^verbatim>\<open>WriteInfo\<close>, \<^verbatim>\<open>WriteLogs\<close> and \<^verbatim>\<open>WriteMetrics\<close> differ in the stream prefix only.\<close>
definition writeTelemetry ::
  "string \<Rightarrow> codec \<Rightarrow> message option \<Rightarrow> world \<Rightarrow> unit outcome \<times> world" where
  "writeTelemetry prefix K m w =
     (case m of
        None \<Rightarrow> (Fails NilMessage, w)
      | Some msg \<Rightarrow>
     (case uuidFromString K (DevID msg) of
        None \<Rightarrow> (Fails (InvalidDeviceUUID (DevID msg)), w)
      | Some u \<Rightarrow>
     (case writeProtobufToStream K (prefix @ uuidString K u) msg w of
        (Some e, w1) \<Rightarrow> (Fails (StreamWriteFailed e), w1)
      | (None, w1) \<Rightarrow> (Returns (), w1))))"

definition WriteInfo :: "codec \<Rightarrow> message option \<Rightarrow> world \<Rightarrow> unit outcome \<times> world" where
  "WriteInfo = writeTelemetry deviceInfoSteram"

definition WriteLogs :: "codec \<Rightarrow> message option \<Rightarrow> world \<Rightarrow> unit outcome \<times> world" where
  "WriteLogs = writeTelemetry deviceLogsStream"

definition WriteMetrics :: "codec \<Rightarrow> message option \<Rightarrow> world \<Rightarrow> unit outcome \<times> world" where
  "WriteMetrics = writeTelemetry deviceMetricsStream"

text \<open>\<^verbatim>\<open>RedisStreamReader\<close>, as \<^verbatim>\<open>GetLogsReader\<close> and \<^verbatim>\<open>GetInfoReader\<close> fill it.\<close>
record redisStreamReader =
  Stream :: string
  LineFeed :: bool

definition GetLogsReader :: "codec \<Rightarrow> uuid \<Rightarrow> redisStreamReader" where
  "GetLogsReader K u = \<lparr>Stream = deviceLogsStream @ uuidString K u, LineFeed = True\<rparr>"

definition GetInfoReader :: "codec \<Rightarrow> uuid \<Rightarrow> redisStreamReader" where
  "GetInfoReader K u = \<lparr>Stream = deviceInfoSteram @ uuidString K u, LineFeed = True\<rparr>"

text \<open>Modelled from the spec: the \<^verbatim>\<open>Read\<close> method of \<^verbatim>\<open>RedisStreamReader\<close> is defined
  elsewhere in the package. The specification describes the reader as "a sequential,
  forward-only, restartable-from-start cursor over the stream's entries, each entry's
  payload exposed as a line-delimited byte sequence": read from the start, it yields the
  payload of each entry of the stream in order, each followed by a line feed.\<close>
definition readerLines :: "redisStreamReader \<Rightarrow> world \<Rightarrow> bytes list" where
  "readerLines r w =
     map (\<lambda>e. object e @ (if LineFeed r then [CHR 0x0A] else []))
         (case streams w (Stream r) of None \<Rightarrow> [] | Some es \<Rightarrow> es)"

subsection \<open>Configuration store\<close>

text \<open>\<^verbatim>\<open>GetConfig\<close>: any error of the read takes the seeding branch.\<close>
definition GetConfig :: "codec \<Rightarrow> uuid \<Rightarrow> world \<Rightarrow> edgeDevConfig outcome \<times> world" where
  "GetConfig K u w =
     (case HGet deviceConfigsHash (uuidString K u) w of
        (Inl e, w1) \<Rightarrow>
          (let msg = createBaseConfig K u in
          (case marshalConfig K msg of
             None \<Rightarrow> (Fails MarshalConfigFailed, w1)
           | Some v \<Rightarrow>
          (case HSet deviceConfigsHash (uuidString K u) v w1 of
             (Inl e, w2) \<Rightarrow> (Fails SaveConfigFailed, w2)
           | (Inr _, w2) \<Rightarrow>
          (case Save w2 of
             (Inl e, w3) \<Rightarrow> (Fails SaveConfigFailed, w3)
           | (Inr _, w3) \<Rightarrow> (Returns msg, w3)))))
      | (Inr b, w1) \<Rightarrow>
          (case unmarshalConfig K b of
             None \<Rightarrow> (Fails UnmarshalConfigFailed, w1)
           | Some msg \<Rightarrow> (Returns msg, w1)))"

definition SetConfig ::
  "codec \<Rightarrow> uuid \<Rightarrow> edgeDevConfig option \<Rightarrow> manager \<Rightarrow> world \<Rightarrow> unit outcome \<times> manager \<times> world" where
  "SetConfig K u m d w =
     (case m of
        None \<Rightarrow> (Fails EmptyConfiguration, d, w)
      | Some msg \<Rightarrow>
     (if Id msg = None \<or> Id msg \<noteq> Some (uuidString K u) then (Fails MismatchedUUID, d, w)
      else
     (case refreshCache K d w of
        (Panics, d1, w1) \<Rightarrow> (Panics, d1, w1)
      | (Fails e, d1, w1) \<Rightarrow> (Fails (RefreshFailed e), d1, w1)
      | (Returns _, d1, w1) \<Rightarrow>
     (case lookupM (devices d1) u of
        None \<Rightarrow> (Fails UnregisteredDevice, d1, w1)
      | Some _ \<Rightarrow>
     (case marshalConfig K msg of
        None \<Rightarrow> (Fails MarshalConfigFailed, d1, w1)
      | Some v \<Rightarrow>
     (case HSet deviceConfigsHash (uuidString K u) v w1 of
        (Inl e, w2) \<Rightarrow> (Fails SaveConfigFailed, d1, w2)
      | (Inr _, w2) \<Rightarrow>
     (case Save w2 of
        (Inl e, w3) \<Rightarrow> (Fails SaveConfigFailed, d1, w3)
      | (Inr _, w3) \<Rightarrow> (Returns (), d1, w3))))))))"

subsection \<open>Auxiliary notions for the statements\<close>

text \<open>\<open>reads w w'\<close>: \<open>w'\<close> comes from \<open>w\<close> by commands that only read Redis; nothing but
  the fault schedule has moved.\<close>
definition reads :: "world \<Rightarrow> world \<Rightarrow> bool" where
  "reads w w' \<longleftrightarrow>
     hashes w' = hashes w \<and> streams w' = streams w \<and> now w' = now w \<and> ticks w' = ticks w \<and>
     rng w' = rng w \<and> (\<exists>n. faults w' = drop n (faults w))"

text \<open>\<open>withinTTL d w\<close>: the next \<^verbatim>\<open>refreshCache\<close> takes its early return.\<close>
definition withinTTL :: "manager \<Rightarrow> world \<Rightarrow> bool" where
  "withinTTL d w \<longleftrightarrow> fst (timeNow w) - lastUpdate d < cacheTimeout d * 1000000000"

subsection \<open>A concrete codec and concrete states for the examples\<close>

text \<open>A small stand-in for the libraries: PEM text is the prefix \<open>PEM:\<close> before the DER
  bytes, every non-empty byte string is a certificate, two UUIDs have a text form, a serial
  list is encoded with one character per serial.\<close>
definition demoCodec :: codec where
  "demoCodec =
     \<lparr>pemDecode = (\<lambda>s. if take 4 s = ''PEM:'' then Some (drop 4 s) else None),
      parseCertificate = (\<lambda>der. if der = [] then None else Some \<lparr>Raw = der, CommonName = der\<rparr>),
      pemEncodeCert = (\<lambda>der. ''PEM:'' @ der),
      parseCert = (\<lambda>s. if take 4 s = ''PEM:'' \<and> drop 4 s \<noteq> []
                        then Some \<lparr>Raw = drop 4 s, CommonName = drop 4 s\<rparr> else None),
      uuidFromString = (\<lambda>s. if s = ''u1'' then Some 1 else if s = ''u2'' then Some 2 else None),
      uuidString = (\<lambda>u. if u = 1 then ''u1'' else if u = 2 then ''u2'' else ''u0''),
      unmarshalSerials = (\<lambda>s. Some (map (\<lambda>c. [c]) s)),
      marshalConfig = (\<lambda>c. case Id c of None \<Rightarrow> None | Some i \<Rightarrow> Some (i @ ''|'' @ body c)),
      unmarshalConfig = (\<lambda>s. Some \<lparr>Id = Some (takeWhile (\<lambda>c. c \<noteq> CHR ''|'') s),
                                    body = drop 1 (dropWhile (\<lambda>c. c \<noteq> CHR ''|'') s)\<rparr>),
      jsonMarshal = (\<lambda>m. Some (payload m))\<rparr>"

text \<open>A manager as \<^verbatim>\<open>Init\<close> leaves it, with the given timeout.\<close>
definition newManager :: "int \<Rightarrow> manager" where
  "newManager timeout =
     \<lparr>cacheTimeout = timeout, lastUpdate = 0, onboardCerts = None, deviceCerts = None,
      devices = None\<rparr>"

definition emptyWorld :: world where
  "emptyWorld =
     \<lparr>hashes = (\<lambda>_. []), streams = (\<lambda>_. None), faults = [], now = 0, ticks = [], rng = []\<rparr>"

definition cert1 :: certificate where
  "cert1 = \<lparr>Raw = ''c1'', CommonName = ''c1''\<rparr>"

definition dev1 :: certificate where
  "dev1 = \<lparr>Raw = ''d1'', CommonName = ''d1''\<rparr>"

text \<open>One onboarding certificate \<open>c1\<close> with the serials \<open>a\<close> and \<open>b\<close>.\<close>
definition onboardWorld :: world where
  "onboardWorld =
     emptyWorld\<lparr>hashes := (\<lambda>_. [])
       (onboardCertsHash := [(''cn'', ''PEM:c1'')],
        onboardSerialsHash := [(''cn'', ''ab'')])\<rparr>"

text \<open>The same, and one device \<open>u1\<close> that has a device certificate and neither an
  onboarding certificate nor a serial: what \<^verbatim>\<open>DeviceRegister(cert, nil, "")\<close> stores.\<close>
definition orphanWorld :: world where
  "orphanWorld =
     emptyWorld\<lparr>hashes := (\<lambda>_. [])
       (onboardCertsHash := [(''cn'', ''PEM:c1'')],
        onboardSerialsHash := [(''cn'', ''ab'')],
        deviceCertsHash := [(''u1'', ''PEM:d1'')])\<rparr>"

text \<open>An onboarding certificate record that is not PEM.\<close>
definition garbageWorld :: world where
  "garbageWorld =
     emptyWorld\<lparr>hashes := (\<lambda>_. [])(onboardCertsHash := [(''cn'', ''garbage'')])\<rparr>"

text \<open>A valid onboarding certificate, and a device certificate record under a key that is
  not a UUID.\<close>
definition badKeyWorld :: world where
  "badKeyWorld =
     emptyWorld\<lparr>hashes := (\<lambda>_. [])
       (onboardCertsHash := [(''cn'', ''PEM:c1'')],
        onboardSerialsHash := [(''cn'', ''ab'')],
        deviceCertsHash := [(''zz'', ''PEM:d1'')])\<rparr>"

text \<open>The cache that a refresh loads from \<open>orphanWorld\<close>.\<close>
definition orphanCache :: manager where
  "orphanCache =
     \<lparr>cacheTimeout = 0, lastUpdate = 0, onboardCerts = Some [(''c1'', {''b'', ''a''})],
      deviceCerts = Some [(''d1'', 1)], devices = Some [(1, \<lparr>onboard = None, serial = []\<rparr>)]\<rparr>"

text \<open>The cache left by the failed refresh from \<open>badKeyWorld\<close>.\<close>
definition badKeyCache :: manager where
  "badKeyCache = (newManager 0)\<lparr>onboardCerts := Some [(''c1'', {''b'', ''a''})]\<rparr>"

text \<open>The world in which \<open>v\<close> is the stored configuration of \<open>u\<close>.\<close>
definition withConfig :: "codec \<Rightarrow> uuid \<Rightarrow> bytes \<Rightarrow> world \<Rightarrow> world" where
  "withConfig K u v w =
     w\<lparr>hashes := (hashes w)(deviceConfigsHash :=
          AList.update (uuidString K u) v (hashes w deviceConfigsHash))\<rparr>"




text \<open>A store that holds the configuration \<open>u1|hello\<close> for \<open>u1\<close>, and whose next command
  fails with an I/O error.\<close>
definition flakyConfigWorld :: world where
  "flakyConfigWorld = (withConfig demoCodec 1 ''u1|hello'' emptyWorld)\<lparr>faults := [True]\<rparr>"

section \<open>Properties\<close>

subsection \<open>The Redis commands\<close>

lemmas names = onboardCertsHash_def onboardSerialsHash_def deviceSerialsHash_def
  deviceOnboardCertsHash_def deviceCertsHash_def deviceConfigsHash_def deviceLogsStream_def
  deviceInfoSteram_def deviceMetricsStream_def

lemmas client = fault_def timeNow_def NewV4_def HGet_def HGetAll_def HSet_def HDel_def Del_def
  XAdd_def Save_def

lemmas demo = demoCodec_def newManager_def emptyWorld_def cert1_def dev1_def onboardWorld_def
  orphanWorld_def garbageWorld_def badKeyWorld_def orphanCache_def
  badKeyCache_def

lemma reads_refl: "reads w w"
  unfolding reads_def by (auto intro: exI [of _ 0])

lemma reads_trans: "reads w w1 \<Longrightarrow> reads w1 w2 \<Longrightarrow> reads w w2"
  unfolding reads_def by (metis drop_drop)

lemma readsD:
  "reads w w' \<Longrightarrow> hashes w' = hashes w \<and> streams w' = streams w \<and> now w' = now w \<and>
     ticks w' = ticks w \<and> rng w' = rng w \<and> (faults w = [] \<longrightarrow> faults w' = [])"
  unfolding reads_def by auto

lemma fault_reads: "fault w = (b, w') \<Longrightarrow> reads w w'"
  unfolding reads_def fault_def
  by (auto split: list.splits intro: exI [of _ 0] exI [of _ 1])

lemma fault_none: "faults w = [] \<Longrightarrow> fault w = (False, w)"
  by (simp add: fault_def)

lemma HGet_reads: "HGet h k w = (r, w') \<Longrightarrow> reads w w'"
  by (auto simp: HGet_def Let_def split: prod.splits if_splits option.splits dest: fault_reads)

lemma HGetAll_reads: "HGetAll h w = (r, w') \<Longrightarrow> reads w w'"
  by (auto simp: HGetAll_def Let_def split: prod.splits if_splits dest: fault_reads)

lemma Save_reads: "Save w = (r, w') \<Longrightarrow> reads w w'"
  by (auto simp: Save_def Let_def split: prod.splits if_splits dest: fault_reads)

lemma HGetAll_result: "HGetAll h w = (Inr l, w') \<Longrightarrow> l = hashes w h"
  by (auto simp: HGetAll_def Let_def split: prod.splits if_splits dest!: fault_reads readsD)

lemma HGet_none: "faults w = [] \<Longrightarrow>
  HGet h k w = (case map_of (hashes w h) k of None \<Rightarrow> Inl RedisNil | Some v \<Rightarrow> Inr v, w)"
  by (simp add: HGet_def fault_none split: option.splits)

lemma HGetAll_none: "faults w = [] \<Longrightarrow> HGetAll h w = (Inr (hashes w h), w)"
  by (simp add: HGetAll_def fault_none)

lemma Save_none: "faults w = [] \<Longrightarrow> Save w = (Inr (), w)"
  by (simp add: Save_def fault_none)

lemma HSet_none: "faults w = [] \<Longrightarrow>
  HSet h k v w = (Inr (map_of (hashes w h) k = None),
                  w\<lparr>hashes := (hashes w)(h := AList.update k v (hashes w h))\<rparr>)"
  by (simp add: HSet_def fault_none)

lemma scanOnboardCerts_reads:
  "scanOnboardCerts K l acc w = (r, w') \<Longrightarrow> reads w w'"
proof (induction l arbitrary: acc w)
  case Nil
  then show ?case by (simp add: reads_refl)
next
  case (Cons p l)
  obtain u c where p: "p = (u, c)" by (cases p)
  from Cons.prems show ?case
    unfolding p
    by (auto simp: Let_def reads_refl split: option.splits prod.splits sum.splits
        dest!: HGet_reads Cons.IH intro: reads_trans)
qed

lemma timeNow_reads: "timeNow w = (t, w') \<Longrightarrow> now w \<le> t \<and> now w' = t \<and> hashes w' = hashes w
   \<and> streams w' = streams w \<and> faults w' = faults w \<and> rng w' = rng w"
  by (auto simp: timeNow_def split: list.splits)


subsection \<open>refreshCache\<close>

lemma refreshCache_gated:
  "withinTTL d w \<Longrightarrow> refreshCache K d w = (Returns (), d, snd (timeNow w))"
  by (cases "timeNow w") (simp add: refreshCache_def withinTTL_def)

lemma refreshCache_cases:
  assumes "refreshCache K d w = (r, d', w')"
  shows "(withinTTL d w \<and> r = Returns () \<and> d' = d \<and> w' = snd (timeNow w))
    \<or> (\<not> withinTTL d w \<and> r \<noteq> Returns () \<and> d' = d)
    \<or> (\<not> withinTTL d w \<and> r \<noteq> Returns () \<and> (\<exists>oc. d' = d\<lparr>onboardCerts := Some oc\<rparr>))
    \<or> (\<not> withinTTL d w \<and> r \<noteq> Returns () \<and>
         (\<exists>oc dc dv1. scanDeviceCerts K (hashes w deviceCertsHash) [] [] = Returns (dc, dv1) \<and>
            d' = d\<lparr>onboardCerts := Some oc, deviceCerts := Some dc\<rparr>))
    \<or> (\<not> withinTTL d w \<and> r = Returns () \<and>
         (\<exists>oc dc dv1 dv2 dv3 w1 w2.
            reads (snd (timeNow w)) w1 \<and>
            scanOnboardCerts K (hashes w onboardCertsHash) [] w1 = (Returns oc, w2) \<and>
            scanDeviceCerts K (hashes w deviceCertsHash) [] [] = Returns (dc, dv1) \<and>
            scanDeviceOnboardCerts K (hashes w deviceOnboardCertsHash) dv1 = Returns dv2 \<and>
            scanDeviceSerials K (hashes w deviceSerialsHash) dv2 = Returns dv3 \<and>
            d' = d\<lparr>onboardCerts := Some oc, deviceCerts := Some dc, devices := Some dv3,
                   lastUpdate := fst (timeNow w)\<rparr>))"
proof (cases "withinTTL d w")
  case True
  with assms show ?thesis by (simp add: refreshCache_gated)
next
  case False
  obtain t w0 where t: "timeNow w = (t, w0)" by (cases "timeNow w")
  have h0: "hashes w0 = hashes w" using t by (auto simp: timeNow_def split: list.splits)
  have ng: "\<not> t - lastUpdate d < cacheTimeout d * 1000000000"
    using False t by (simp add: withinTTL_def)
  obtain r1 w1 where a1: "HGetAll onboardCertsHash w0 = (r1, w1)" by (cases "HGetAll onboardCertsHash w0")
  have rd1: "reads w0 w1" using a1 by (rule HGetAll_reads)
  show ?thesis
  proof (cases r1)
    case (Inl e)
    with assms t ng a1 False show ?thesis by (auto simp: refreshCache_def)
  next
    case (Inr ocerts)
    have oc_eq: "ocerts = hashes w onboardCertsHash"
      using a1 Inr HGetAll_result h0 by fastforce
    obtain r2 w2 where a2: "scanOnboardCerts K ocerts [] w1 = (r2, w2)"
      by (cases "scanOnboardCerts K ocerts [] w1")
    have rd2: "reads w1 w2" using a2 by (rule scanOnboardCerts_reads)
    show ?thesis
    proof (cases r2)
      case Panics
      with assms t ng a1 Inr a2 False show ?thesis by (auto simp: refreshCache_def)
    next
      case (Fails e)
      with assms t ng a1 Inr a2 False show ?thesis by (auto simp: refreshCache_def)
    next
      case (Returns oc)
      obtain r3 w3 where a3: "HGetAll deviceCertsHash w2 = (r3, w3)" by (cases "HGetAll deviceCertsHash w2")
      have rd3: "reads w2 w3" using a3 by (rule HGetAll_reads)
      have h2: "hashes w2 = hashes w" using rd1 rd2 h0 by (auto dest!: readsD)
      show ?thesis
      proof (cases r3)
        case (Inl e)
        with assms t ng a1 Inr a2 Returns a3 False show ?thesis
          by (auto simp: refreshCache_def)
      next
        case r3: (Inr dcerts)
        have dc_eq: "dcerts = hashes w deviceCertsHash"
          using a3 r3 HGetAll_result h2 by fastforce
        show ?thesis
        proof (cases "scanDeviceCerts K dcerts [] []")
          case Panics
          with assms t ng a1 Inr a2 Returns a3 r3 False show ?thesis
            by (auto simp: refreshCache_def)
        next
          case (Fails e)
          with assms t ng a1 Inr a2 Returns a3 r3 False show ?thesis
            by (auto simp: refreshCache_def)
        next
          case s2: (Returns p)
          obtain dc dv1 where p: "p = (dc, dv1)" by (cases p)
          obtain r4 w4 where a4: "HGetAll deviceOnboardCertsHash w3 = (r4, w4)"
            by (cases "HGetAll deviceOnboardCertsHash w3")
          have rd4: "reads w3 w4" using a4 by (rule HGetAll_reads)
          have h3: "hashes w3 = hashes w" using rd3 h2 by (auto dest!: readsD)
          show ?thesis
          proof (cases r4)
            case (Inl e)
            with assms t ng a1 Inr a2 Returns a3 r3 s2 p a4 False dc_eq show ?thesis
              by (auto simp: refreshCache_def)
          next
            case r4: (Inr docerts)
            have do_eq: "docerts = hashes w deviceOnboardCertsHash"
              using a4 r4 HGetAll_result h3 by fastforce
            show ?thesis
            proof (cases "scanDeviceOnboardCerts K docerts dv1")
              case Panics
              with assms t ng a1 Inr a2 Returns a3 r3 s2 p a4 r4 False dc_eq show ?thesis
                by (auto simp: refreshCache_def)
            next
              case (Fails e)
              with assms t ng a1 Inr a2 Returns a3 r3 s2 p a4 r4 False dc_eq show ?thesis
                by (auto simp: refreshCache_def)
            next
              case s3: (Returns dv2)
              obtain r5 w5 where a5: "HGetAll deviceSerialsHash w4 = (r5, w5)"
                by (cases "HGetAll deviceSerialsHash w4")
              have h4: "hashes w4 = hashes w" using rd4 h3 by (auto dest!: readsD)
              show ?thesis
              proof (cases r5)
                case (Inl e)
                with assms t ng a1 Inr a2 Returns a3 r3 s2 p a4 r4 s3 a5 False dc_eq show ?thesis
                  by (auto simp: refreshCache_def)
              next
                case r5: (Inr dserials)
                have ds_eq: "dserials = hashes w deviceSerialsHash"
                  using a5 r5 HGetAll_result h4 by fastforce
                show ?thesis
                proof (cases "scanDeviceSerials K dserials dv2")
                  case Panics
                  with assms t ng a1 Inr a2 Returns a3 r3 s2 p a4 r4 s3 a5 r5 False dc_eq
                  show ?thesis by (auto simp: refreshCache_def)
                next
                  case (Fails e)
                  with assms t ng a1 Inr a2 Returns a3 r3 s2 p a4 r4 s3 a5 r5 False dc_eq
                  show ?thesis by (auto simp: refreshCache_def)
                next
                  case s4: (Returns dv3)
                  have d': "r = Returns () \<and> d' = d\<lparr>onboardCerts := Some oc, deviceCerts := Some dc,
                      devices := Some dv3, lastUpdate := t\<rparr>"
                    using assms t ng a1 Inr a2 Returns a3 r3 s2 p a4 r4 s3 a5 r5 s4
                    by (auto simp: refreshCache_def)
                  have "reads (snd (timeNow w)) w1" using rd1 t by simp
                  moreover have "scanOnboardCerts K (hashes w onboardCertsHash) [] w1 = (Returns oc, w2)"
                    using a2 Returns oc_eq by simp
                  moreover have "scanDeviceCerts K (hashes w deviceCertsHash) [] [] = Returns (dc, dv1)"
                    using s2 p dc_eq by simp
                  moreover have "scanDeviceOnboardCerts K (hashes w deviceOnboardCertsHash) dv1 = Returns dv2"
                    using s3 do_eq by simp
                  moreover have "scanDeviceSerials K (hashes w deviceSerialsHash) dv2 = Returns dv3"
                    using s4 ds_eq by simp
                  ultimately show ?thesis using d' False t by auto
                qed
              qed
            qed
          qed
        qed
      qed
    qed
  qed
qed

lemma refreshCache_world:
  assumes "refreshCache K d w = (r, d', w')"
  shows "reads (snd (timeNow w)) w'"
  using assms unfolding refreshCache_def
  apply (simp add: Let_def split: prod.splits)
  apply (auto simp: Let_def reads_refl split: if_splits prod.splits sum.splits outcome.splits
        dest!: HGetAll_reads scanOnboardCerts_reads intro: reads_trans)
     apply (blast intro: reads_trans)+
  done


text \<open>
  C5. A store with an onboarding-certificate record that is not PEM: \<^verbatim>\<open>pem.Decode\<close>
  returns the \<^verbatim>\<open>nil\<close> block, \<^verbatim>\<open>certPem.Bytes\<close> dereferences it, and
  \<^verbatim>\<open>refreshCache\<close> (and \<^verbatim>\<open>OnboardCheck\<close>, which calls it first) panics instead of
  returning an error.
\<close>
theorem refreshCache_garbage_panics:
  "fst (refreshCache demoCodec (newManager 0) garbageWorld) = Panics \<and>
   fst (OnboardCheck demoCodec (Some cert1) ''a'' (newManager 0) garbageWorld) = Panics"
  by (simp add: OnboardCheck_def refreshCache_def demo names client)




subsection \<open>Onboarding authorisation\<close>

lemma orphan_refresh:
  "refreshCache demoCodec (newManager 0) orphanWorld = (Returns (), orphanCache, orphanWorld)"
  by (simp add: refreshCache_def demo names client addSerial_def emptyStorage_def)

lemma scanDevices_panics:
  assumes "onboard dev = None"
    and "\<forall>p \<in> set pre. \<forall>oc. onboard (snd p) = Some oc \<longrightarrow> \<not> (Raw oc = certStr \<and> s = serial (snd p))"
  shows "scanDevices certStr s (pre @ (uid, dev) # post) = Panics"
  using assms
proof (induction pre)
  case Nil
  then show ?case by simp
next
  case (Cons p pre)
  obtain u' dev' where p: "p = (u', dev')" by (cases p)
  from Cons show ?case unfolding p by (cases "onboard dev'") auto
qed

lemma scanDevices_sponsored:
  assumes "\<forall>p \<in> set l. onboard (snd p) \<noteq> None"
  shows "scanDevices certStr s l =
     Returns (map_option fst (find (\<lambda>p. Raw (the (onboard (snd p))) = certStr \<and> s = serial (snd p)) l))"
  using assms
proof (induction l)
  case Nil
  then show ?case by simp
next
  case (Cons p l)
  obtain u' dev' where p: "p = (u', dev')" by (cases p)
  from Cons show ?case unfolding p by (cases "onboard dev'") auto
qed

lemma scanDeviceCerts_empty:
  assumes "scanDeviceCerts K l dc dv = Returns (dc', dv')"
  shows "(map_of dv u = Some emptyStorage \<or> (\<exists>k \<in> fst ` set l. uuidFromString K k = Some u))
      \<longrightarrow> map_of dv' u = Some emptyStorage"
  using assms
proof (induction l arbitrary: dc dv)
  case Nil
  then show ?case by simp
next
  case (Cons p l)
  obtain k c where p: "p = (k, c)" by (cases p)
  from Cons.prems obtain u1 der cert where
    st: "uuidFromString K k = Some u1" "pemDecode K c = Some der" "parseCertificate K der = Some cert"
    and rec: "scanDeviceCerts K l (AList.update (Raw cert) u1 dc) (AList.update u1 emptyStorage dv)
        = Returns (dc', dv')"
    unfolding p by (auto split: option.splits)
  from Cons.IH [OF rec] st show ?case
    unfolding p by (auto simp: update_conv')
qed

lemma scanDeviceOnboardCerts_other:
  assumes "scanDeviceOnboardCerts K l dv = Returns dv'"
    and "\<forall>k \<in> fst ` set l. uuidFromString K k \<noteq> Some u"
  shows "map_of dv' u = map_of dv u"
  using assms
proof (induction l arbitrary: dv)
  case Nil
  then show ?case by simp
next
  case (Cons p l)
  obtain k c where p: "p = (k, c)" by (cases p)
  from Cons.prems(1) obtain u1 der cert where
    st: "uuidFromString K k = Some u1" "pemDecode K c = Some der" "parseCertificate K der = Some cert"
    and rec: "scanDeviceOnboardCerts K l (AList.update u1 ((devItem dv u1)\<lparr>onboard := Some cert\<rparr>) dv)
        = Returns dv'"
    unfolding p by (auto split: option.splits)
  from Cons.prems(2) st have "u1 \<noteq> u" unfolding p by auto
  with Cons.IH [OF rec] Cons.prems(2) show ?case
    unfolding p by (auto simp: update_conv')
qed

lemma scanDeviceSerials_onboard:
  assumes "scanDeviceSerials K l dv = Returns dv'"
    and "\<exists>dev. map_of dv u = Some dev \<and> onboard dev = None"
  shows "\<exists>dev. map_of dv' u = Some dev \<and> onboard dev = None"
  using assms
proof (induction l arbitrary: dv)
  case Nil
  then show ?case by simp
next
  case (Cons p l)
  obtain k c where p: "p = (k, c)" by (cases p)
  from Cons.prems(1) obtain u1 where
    st: "uuidFromString K k = Some u1"
    and rec: "scanDeviceSerials K l (AList.update u1 ((devItem dv u1)\<lparr>serial := c\<rparr>) dv) = Returns dv'"
    unfolding p by (auto split: option.splits)
  have "\<exists>dev. map_of (AList.update u1 ((devItem dv u1)\<lparr>serial := c\<rparr>) dv) u = Some dev \<and> onboard dev = None"
    using Cons.prems(2) by (auto simp: update_conv' devItem_def)
  from Cons.IH [OF rec this] show ?case .
qed

lemma refreshCache_orphan:
  assumes r: "refreshCache K d w = (Returns (), d1, w1)" and ng: "\<not> withinTTL d w"
    and k: "k \<in> fst ` set (hashes w deviceCertsHash)" "uuidFromString K k = Some u"
    and no: "\<forall>k' \<in> fst ` set (hashes w deviceOnboardCertsHash). uuidFromString K k' \<noteq> Some u"
  shows "\<exists>dev. lookupM (devices d1) u = Some dev \<and> onboard dev = None"
proof -
  from refreshCache_cases [OF r] ng obtain oc dc dv1 dv2 dv3 where
    s2: "scanDeviceCerts K (hashes w deviceCertsHash) [] [] = Returns (dc, dv1)"
    and s3: "scanDeviceOnboardCerts K (hashes w deviceOnboardCertsHash) dv1 = Returns dv2"
    and s4: "scanDeviceSerials K (hashes w deviceSerialsHash) dv2 = Returns dv3"
    and d1: "devices d1 = Some dv3"
    by auto
  have "map_of dv1 u = Some emptyStorage"
    using scanDeviceCerts_empty [OF s2, of u] k by blast
  then have "map_of dv2 u = Some emptyStorage"
    using scanDeviceOnboardCerts_other [OF s3 no] by simp
  then have "\<exists>dev. map_of dv2 u = Some dev \<and> onboard dev = None"
    by (simp add: emptyStorage_def)
  from scanDeviceSerials_onboard [OF s4 this] d1 show ?thesis
    by (simp add: lookupM_def)
qed

text \<open>
  C1. The cache loaded from \<open>orphanWorld\<close> knows the certificate \<open>c1\<close> with the serials
  \<open>a\<close> and \<open>b\<close>, and its only device has no onboarding certificate, so no cached device
  has the onboarding identity \<open>c1\<close> and the serial \<open>a\<close>. \<^verbatim>\<open>OnboardCheck(c1, "a")\<close>
  should succeed; it panics in the reuse scan.
\<close>
theorem OnboardCheck_orphan_panics:
  "lookupM (onboardCerts (fst (snd (refreshCache demoCodec (newManager 0) orphanWorld)))) (Raw cert1)
     = Some {''b'', ''a''} \<and>
   rangeM (devices (fst (snd (refreshCache demoCodec (newManager 0) orphanWorld))))
     = [(1, \<lparr>onboard = None, serial = []\<rparr>)] \<and>
   fst (OnboardCheck demoCodec (Some cert1) ''a'' (newManager 0) orphanWorld) = Panics"
  by (simp add: OnboardCheck_def orphan_refresh lookupM_def rangeM_def cert1_def orphanCache_def
      checkValidOnboardSerial_def getOnboardSerialDevice_def)

text \<open>
  C10, as stated, fails: with the same cache, which holds a device without an onboarding
  certificate, \<^verbatim>\<open>OnboardCheck\<close> returns a typed error for a certificate that is not an
  onboarding certificate and for a serial that the certificate does not allow.
\<close>
theorem OnboardCheck_orphan_typed_error:
  "rangeM (devices (fst (snd (refreshCache demoCodec (newManager 0) orphanWorld))))
     = [(1, \<lparr>onboard = None, serial = []\<rparr>)] \<and>
   fst (OnboardCheck demoCodec (Some dev1) ''a'' (newManager 0) orphanWorld) = Fails InvalidCertError \<and>
   fst (OnboardCheck demoCodec (Some cert1) ''z'' (newManager 0) orphanWorld) = Fails InvalidSerialError"
  by (simp add: OnboardCheck_def orphan_refresh lookupM_def rangeM_def cert1_def dev1_def orphanCache_def
      checkValidOnboardSerial_def getOnboardSerialDevice_def)

text \<open>
  C10, amended. Let the refresh at the start of \<^verbatim>\<open>OnboardCheck\<close> succeed and leave the
  cache \<open>d1\<close>.
  \<^item> If the certificate and the serial pass \<^verbatim>\<open>checkValidOnboardSerial\<close> and the reuse
    scan meets a device without an onboarding certificate before a device that matches
    (in particular when no device matches), the call panics.
  \<^item> If they do not pass, the call returns the typed error of the check,
    \<^verbatim>\<open>InvalidCertError\<close> or \<^verbatim>\<open>InvalidSerialError\<close>.
  \<^item> A refresh that ran leaves, for every device that has a device-certificate record
    and no device-onboarding-certificate record, a cache entry without an onboarding
    certificate.
\<close>
theorem OnboardCheck_nil_onboard_panics:
  assumes r: "refreshCache K d w = (Returns (), d1, w1)"
  shows "(checkValidOnboardSerial d1 c s = None \<longrightarrow>
          rangeM (devices d1) = pre @ (uid, dev) # post \<longrightarrow> onboard dev = None \<longrightarrow>
          (\<forall>p \<in> set pre. \<forall>oc. onboard (snd p) = Some oc \<longrightarrow> \<not> (Raw oc = Raw c \<and> s = serial (snd p))) \<longrightarrow>
            OnboardCheck K (Some c) s d w = (Panics, d1, w1))
       \<and> (\<forall>e. checkValidOnboardSerial d1 c s = Some e \<longrightarrow>
            OnboardCheck K (Some c) s d w = (Fails e, d1, w1) \<and> e \<in> {InvalidCertError, InvalidSerialError})
       \<and> (\<not> withinTTL d w \<longrightarrow>
          (\<forall>k \<in> fst ` set (hashes w deviceCertsHash). \<forall>u. uuidFromString K k = Some u \<longrightarrow>
             (\<forall>k' \<in> fst ` set (hashes w deviceOnboardCertsHash). uuidFromString K k' \<noteq> Some u) \<longrightarrow>
             (\<exists>dev. lookupM (devices d1) u = Some dev \<and> onboard dev = None)))"
proof (intro conjI impI allI ballI)
  assume v: "checkValidOnboardSerial d1 c s = None"
    and l: "rangeM (devices d1) = pre @ (uid, dev) # post"
    and n: "onboard dev = None"
    and m: "\<forall>p \<in> set pre. \<forall>oc. onboard (snd p) = Some oc \<longrightarrow> \<not> (Raw oc = Raw c \<and> s = serial (snd p))"
  have "getOnboardSerialDevice d1 c s = Panics"
    unfolding getOnboardSerialDevice_def l using scanDevices_panics [OF n m] .
  with r v show "OnboardCheck K (Some c) s d w = (Panics, d1, w1)"
    by (simp add: OnboardCheck_def)
next
  fix e assume v: "checkValidOnboardSerial d1 c s = Some e"
  with r show "OnboardCheck K (Some c) s d w = (Fails e, d1, w1)"
    by (simp add: OnboardCheck_def)
next
  fix e assume v: "checkValidOnboardSerial d1 c s = Some e"
  then show "e \<in> {InvalidCertError, InvalidSerialError}"
    by (auto simp: checkValidOnboardSerial_def split: option.splits if_splits)
next
  fix k u k'
  assume "\<not> withinTTL d w" "k \<in> fst ` set (hashes w deviceCertsHash)" "uuidFromString K k = Some u"
    "\<forall>k' \<in> fst ` set (hashes w deviceOnboardCertsHash). uuidFromString K k' \<noteq> Some u"
  then show "\<exists>dev. lookupM (devices d1) u = Some dev \<and> onboard dev = None"
    using refreshCache_orphan [OF r] by blast
qed

theorem OnboardCheck_nil_onboard_panics_witness:
  "refreshCache demoCodec (newManager 0) orphanWorld = (Returns (), orphanCache, orphanWorld) \<and>
   checkValidOnboardSerial orphanCache cert1 ''a'' = None \<and>
   rangeM (devices orphanCache) = [] @ (1, \<lparr>onboard = None, serial = []\<rparr>) # [] \<and>
   OnboardCheck demoCodec (Some cert1) ''a'' (newManager 0) orphanWorld
     = (Panics, orphanCache, orphanWorld) \<and>
   checkValidOnboardSerial orphanCache dev1 ''a'' = Some InvalidCertError \<and>
   OnboardCheck demoCodec (Some dev1) ''a'' (newManager 0) orphanWorld
     = (Fails InvalidCertError, orphanCache, orphanWorld) \<and>
   \<not> withinTTL (newManager 0) orphanWorld \<and>
   ''u1'' \<in> fst ` set (hashes orphanWorld deviceCertsHash) \<and>
   uuidFromString demoCodec ''u1'' = Some 1 \<and>
   onboard (the (lookupM (devices orphanCache) 1)) = None"
proof -
  have v1: "checkValidOnboardSerial orphanCache cert1 ''a'' = None"
    by (simp add: checkValidOnboardSerial_def lookupM_def demo)
  have l: "rangeM (devices orphanCache) = [] @ (1, \<lparr>onboard = None, serial = []\<rparr>) # []"
    by (simp add: rangeM_def demo)
  have v2: "checkValidOnboardSerial orphanCache dev1 ''a'' = Some InvalidCertError"
    by (simp add: checkValidOnboardSerial_def lookupM_def demo)
  have ng: "\<not> withinTTL (newManager 0) orphanWorld"
    by (simp add: withinTTL_def demo client)
  have k: "''u1'' \<in> fst ` set (hashes orphanWorld deviceCertsHash)"
    by (simp add: demo names)
  have u: "uuidFromString demoCodec ''u1'' = Some 1"
    by (simp add: demo)
  have no: "\<forall>k' \<in> fst ` set (hashes orphanWorld deviceOnboardCertsHash).
      uuidFromString demoCodec k' \<noteq> Some 1"
    by (simp add: demo names)
  note T1 = OnboardCheck_nil_onboard_panics [OF orphan_refresh,
      where c = cert1 and s = "''a''" and pre = "[]" and uid = 1
        and dev = "\<lparr>onboard = None, serial = []\<rparr>" and post = "[]"]
  note T2 = OnboardCheck_nil_onboard_panics [OF orphan_refresh,
      where c = dev1 and s = "''a''" and pre = "[]" and uid = 1
        and dev = "\<lparr>onboard = None, serial = []\<rparr>" and post = "[]"]
  have p1: "OnboardCheck demoCodec (Some cert1) ''a'' (newManager 0) orphanWorld
     = (Panics, orphanCache, orphanWorld)"
    using T1 v1 l by simp
  have p2: "OnboardCheck demoCodec (Some dev1) ''a'' (newManager 0) orphanWorld
     = (Fails InvalidCertError, orphanCache, orphanWorld)"
    using T2 v2 by simp
  have "\<exists>dev. lookupM (devices orphanCache) 1 = Some dev \<and> onboard dev = None"
    using T1 ng k u no by blast
  then have p3: "onboard (the (lookupM (devices orphanCache) 1)) = None" by auto
  from orphan_refresh v1 l p1 v2 p2 ng k u p3 show ?thesis by blast
qed

lemma XAdd_none: "faults w = [] \<Longrightarrow>
  XAdd s None e w =
    (Inr (), w\<lparr>streams := (streams w)(s := Some ((case streams w s of None \<Rightarrow> [] | Some old \<Rightarrow> old) @ [e]))\<rparr>)"
  by (simp add: XAdd_def fault_none)

lemma refreshCache_store:
  "refreshCache K d w = (r, d', w') \<Longrightarrow>
     hashes w' = hashes w \<and> streams w' = streams w \<and> rng w' = rng w \<and>
     (faults w = [] \<longrightarrow> faults w' = [])"
  by (drule refreshCache_world) (auto simp: reads_def timeNow_def split: list.splits)


subsection \<open>Configuration store\<close>

text \<open>
  C6, as stated, fails: for a \<^verbatim>\<open>nil\<close> document \<^verbatim>\<open>SetConfig\<close> returns the error
  "empty configuration" (line 541), which is not the "mismatched UUID" error (line 545)
  that a document with another embedded UUID gets.
\<close>
theorem SetConfig_nil_is_empty_configuration:
  "SetConfig demoCodec 1 None (newManager 0) emptyWorld
     = (Fails EmptyConfiguration, newManager 0, emptyWorld) \<and>
   fst (SetConfig demoCodec 1 None (newManager 0) emptyWorld) \<noteq> Fails MismatchedUUID"
  by (simp add: SetConfig_def)

text \<open>
  C6, amended. \<^verbatim>\<open>SetConfig(u, m)\<close> fails with the error "empty configuration" on a
  \<^verbatim>\<open>nil\<close> document and with the error "mismatched UUID" on a document whose embedded
  UUID is missing or differs from \<open>u\<close>, in both cases before the manager or the store is
  touched. After a successful refresh it fails with "unregistered device UUID" when \<open>u\<close>
  is not in the \<open>devices\<close> cache, and the store holds what it held before. When \<open>m\<close>
  passes both checks (and it can be serialised and the write meets no I/O failure) the
  call succeeds and the stored document of \<open>u\<close> is the serialised \<open>m\<close>, whatever was
  stored before.
\<close>
theorem SetConfig_checks:
  "SetConfig K u None d w = (Fails EmptyConfiguration, d, w)
   \<and> (Id msg \<noteq> Some (uuidString K u) \<longrightarrow>
        SetConfig K u (Some msg) d w = (Fails MismatchedUUID, d, w))
   \<and> (Id msg = Some (uuidString K u) \<longrightarrow> refreshCache K d w = (Returns (), d1, w1) \<longrightarrow>
        lookupM (devices d1) u = None \<longrightarrow>
        SetConfig K u (Some msg) d w = (Fails UnregisteredDevice, d1, w1) \<and>
        hashes w1 = hashes w \<and> streams w1 = streams w)
   \<and> (Id msg = Some (uuidString K u) \<longrightarrow> refreshCache K d w = (Returns (), d1, w1) \<longrightarrow>
        lookupM (devices d1) u \<noteq> None \<longrightarrow> marshalConfig K msg = Some v \<longrightarrow> faults w1 = [] \<longrightarrow>
        SetConfig K u (Some msg) d w = (Returns (), d1, withConfig K u v w1) \<and>
        map_of (hashes (withConfig K u v w1) deviceConfigsHash) (uuidString K u) = Some v)"
proof (intro conjI impI)
  show "SetConfig K u None d w = (Fails EmptyConfiguration, d, w)"
    by (simp add: SetConfig_def)
next
  assume "Id msg \<noteq> Some (uuidString K u)"
  then show "SetConfig K u (Some msg) d w = (Fails MismatchedUUID, d, w)"
    by (auto simp: SetConfig_def)
next
  assume "Id msg = Some (uuidString K u)" "refreshCache K d w = (Returns (), d1, w1)"
    "lookupM (devices d1) u = None"
  then show "SetConfig K u (Some msg) d w = (Fails UnregisteredDevice, d1, w1)"
    by (simp add: SetConfig_def)
next
  assume "refreshCache K d w = (Returns (), d1, w1)"
  then show "hashes w1 = hashes w" by (simp add: refreshCache_store)
next
  assume "refreshCache K d w = (Returns (), d1, w1)"
  then show "streams w1 = streams w" by (simp add: refreshCache_store)
next
  assume "Id msg = Some (uuidString K u)" "refreshCache K d w = (Returns (), d1, w1)"
    "lookupM (devices d1) u \<noteq> None" "marshalConfig K msg = Some v" "faults w1 = []"
  then show "SetConfig K u (Some msg) d w = (Returns (), d1, withConfig K u v w1)"
    by (auto simp: SetConfig_def HSet_none Save_none withConfig_def)
next
  show "map_of (hashes (withConfig K u v w1) deviceConfigsHash) (uuidString K u) = Some v"
    by (simp add: withConfig_def update_conv')
qed

theorem SetConfig_checks_witness:
  "Id \<lparr>Id = Some ''u2'', body = ''x''\<rparr> \<noteq> Some (uuidString demoCodec 1) \<and>
   SetConfig demoCodec 1 (Some \<lparr>Id = Some ''u2'', body = ''x''\<rparr>) (newManager 0) orphanWorld
     = (Fails MismatchedUUID, newManager 0, orphanWorld) \<and>
   refreshCache demoCodec (newManager 0) orphanWorld = (Returns (), orphanCache, orphanWorld) \<and>
   lookupM (devices orphanCache) 2 = None \<and>
   SetConfig demoCodec 2 (Some \<lparr>Id = Some ''u2'', body = ''x''\<rparr>) (newManager 0) orphanWorld
     = (Fails UnregisteredDevice, orphanCache, orphanWorld) \<and>
   lookupM (devices orphanCache) 1 \<noteq> None \<and>
   marshalConfig demoCodec \<lparr>Id = Some ''u1'', body = ''x''\<rparr> = Some ''u1|x'' \<and>
   faults orphanWorld = [] \<and>
   SetConfig demoCodec 1 (Some \<lparr>Id = Some ''u1'', body = ''x''\<rparr>) (newManager 0) orphanWorld
     = (Returns (), orphanCache, withConfig demoCodec 1 ''u1|x'' orphanWorld) \<and>
   map_of (hashes (withConfig demoCodec 1 ''u1|x'' orphanWorld) deviceConfigsHash) ''u1'' = Some ''u1|x''"
proof -
  have a: "Id \<lparr>Id = Some ''u2'', body = ''x''\<rparr> \<noteq> Some (uuidString demoCodec 1)"
    by (simp add: demo)
  have b: "Id \<lparr>Id = Some ''u2'', body = ''x''\<rparr> = Some (uuidString demoCodec 2)"
    by (simp add: demo)
  have c: "lookupM (devices orphanCache) 2 = None" by (simp add: lookupM_def demo)
  have d: "Id \<lparr>Id = Some ''u1'', body = ''x''\<rparr> = Some (uuidString demoCodec 1)"
    by (simp add: demo)
  have e: "lookupM (devices orphanCache) 1 \<noteq> None" by (simp add: lookupM_def demo)
  have f: "marshalConfig demoCodec \<lparr>Id = Some ''u1'', body = ''x''\<rparr> = Some ''u1|x''"
    by (simp add: demo)
  have g: "faults orphanWorld = []" by (simp add: demo)
  have u1: "uuidString demoCodec 1 = ''u1''" by (simp add: demo)
  note T1 = SetConfig_checks [where K = demoCodec and u = 1
      and msg = "\<lparr>Id = Some ''u2'', body = ''x''\<rparr>" and d = "newManager 0" and w = orphanWorld]
  note T2 = SetConfig_checks [where K = demoCodec and u = 2
      and msg = "\<lparr>Id = Some ''u2'', body = ''x''\<rparr>" and d = "newManager 0" and w = orphanWorld
      and ?d1.0 = orphanCache and ?w1.0 = orphanWorld]
  note T3 = SetConfig_checks [where K = demoCodec and u = 1
      and msg = "\<lparr>Id = Some ''u1'', body = ''x''\<rparr>" and d = "newManager 0" and w = orphanWorld
      and ?d1.0 = orphanCache and ?w1.0 = orphanWorld and v = "''u1|x''"]
  have p1: "SetConfig demoCodec 1 (Some \<lparr>Id = Some ''u2'', body = ''x''\<rparr>) (newManager 0) orphanWorld
     = (Fails MismatchedUUID, newManager 0, orphanWorld)"
    using T1 a by blast
  have p2: "SetConfig demoCodec 2 (Some \<lparr>Id = Some ''u2'', body = ''x''\<rparr>) (newManager 0) orphanWorld
     = (Fails UnregisteredDevice, orphanCache, orphanWorld)"
    using T2 b c orphan_refresh by blast
  have p3: "SetConfig demoCodec 1 (Some \<lparr>Id = Some ''u1'', body = ''x''\<rparr>) (newManager 0) orphanWorld
     = (Returns (), orphanCache, withConfig demoCodec 1 ''u1|x'' orphanWorld) \<and>
     map_of (hashes (withConfig demoCodec 1 ''u1|x'' orphanWorld) deviceConfigsHash)
       (uuidString demoCodec 1) = Some ''u1|x''"
    using T3 d e f g orphan_refresh by blast
  from a p1 orphan_refresh c p2 e f g p3 show ?thesis unfolding u1 by blast
qed

text \<open>
  C7. \<^verbatim>\<open>GetConfig\<close> takes its seeding branch on every error of the read (line 492), not
  only when the record is absent, as its comment "if config doesn't exist" says. Here a
  configuration is stored for \<open>u1\<close> and decodes to a document with the body \<open>hello\<close>; the
  read fails once with an I/O error. \<^verbatim>\<open>GetConfig(u1)\<close> returns the base configuration as
  a success, not the stored document, and has overwritten the stored document with it.
\<close>
theorem GetConfig_read_error_reseeds:
  "map_of (hashes flakyConfigWorld deviceConfigsHash) (uuidString demoCodec 1) = Some ''u1|hello'' \<and>
   unmarshalConfig demoCodec ''u1|hello'' = Some \<lparr>Id = Some ''u1'', body = ''hello''\<rparr> \<and>
   fst (GetConfig demoCodec 1 flakyConfigWorld) = Returns \<lparr>Id = Some ''u1'', body = []\<rparr> \<and>
   fst (GetConfig demoCodec 1 flakyConfigWorld) \<noteq> Returns \<lparr>Id = Some ''u1'', body = ''hello''\<rparr> \<and>
   map_of (hashes (snd (GetConfig demoCodec 1 flakyConfigWorld)) deviceConfigsHash)
     (uuidString demoCodec 1) = Some ''u1|''"
  by (simp add: GetConfig_def flakyConfigWorld_def withConfig_def createBaseConfig_def demo names
      client)

text \<open>
  The rest of the lazy seeding holds when no command fails: when no configuration is
  stored for \<open>u\<close>, \<^verbatim>\<open>GetConfig(u)\<close> returns the base configuration, whose embedded UUID is
  the text of \<open>u\<close>, and stores its serialisation; a second call returns the same document
  and leaves the store as it is (given that the serialised base configuration decodes to
  itself). When a configuration is stored and decodes to \<open>doc\<close>, the call returns
  \<open>doc\<close> and leaves the store as it is.
\<close>
lemma GetConfig_seeds_once:
  "(faults w = [] \<longrightarrow> map_of (hashes w deviceConfigsHash) (uuidString K u) = None \<longrightarrow>
      marshalConfig K (createBaseConfig K u) = Some v \<longrightarrow>
      unmarshalConfig K v = Some (createBaseConfig K u) \<longrightarrow>
        GetConfig K u w = (Returns (createBaseConfig K u), withConfig K u v w) \<and>
        Id (createBaseConfig K u) = Some (uuidString K u) \<and>
        map_of (hashes (withConfig K u v w) deviceConfigsHash) (uuidString K u) = Some v \<and>
        GetConfig K u (withConfig K u v w) = (Returns (createBaseConfig K u), withConfig K u v w))
   \<and> (faults w = [] \<longrightarrow> map_of (hashes w deviceConfigsHash) (uuidString K u) = Some b \<longrightarrow>
      unmarshalConfig K b = Some doc \<longrightarrow> GetConfig K u w = (Returns doc, w))"
proof (intro conjI impI)
  assume f: "faults w = []" and n: "map_of (hashes w deviceConfigsHash) (uuidString K u) = None"
    and m: "marshalConfig K (createBaseConfig K u) = Some v"
  have "faults (withConfig K u v w) = []" using f by (simp add: withConfig_def)
  show "GetConfig K u w = (Returns (createBaseConfig K u), withConfig K u v w)"
    using f n m by (simp add: GetConfig_def HGet_none HSet_none Save_none withConfig_def)
next
  show "Id (createBaseConfig K u) = Some (uuidString K u)"
    by (simp add: createBaseConfig_def)
next
  show "map_of (hashes (withConfig K u v w) deviceConfigsHash) (uuidString K u) = Some v"
    by (simp add: withConfig_def update_conv')
next
  assume f: "faults w = []" and um: "unmarshalConfig K v = Some (createBaseConfig K u)"
  have f': "faults (withConfig K u v w) = []" using f by (simp add: withConfig_def)
  have "map_of (hashes (withConfig K u v w) deviceConfigsHash) (uuidString K u) = Some v"
    by (simp add: withConfig_def update_conv')
  then show "GetConfig K u (withConfig K u v w) = (Returns (createBaseConfig K u), withConfig K u v w)"
    using um by (simp add: GetConfig_def HGet_none [OF f'])
next
  assume "faults w = []" "map_of (hashes w deviceConfigsHash) (uuidString K u) = Some b"
    "unmarshalConfig K b = Some doc"
  then show "GetConfig K u w = (Returns doc, w)"
    by (simp add: GetConfig_def HGet_none)
qed

lemma GetConfig_seeds_once_example:
  "faults emptyWorld = [] \<and>
   map_of (hashes emptyWorld deviceConfigsHash) (uuidString demoCodec 1) = None \<and>
   marshalConfig demoCodec (createBaseConfig demoCodec 1) = Some ''u1|'' \<and>
   unmarshalConfig demoCodec ''u1|'' = Some (createBaseConfig demoCodec 1) \<and>
   GetConfig demoCodec 1 emptyWorld
     = (Returns (createBaseConfig demoCodec 1), withConfig demoCodec 1 ''u1|'' emptyWorld) \<and>
   GetConfig demoCodec 1 (withConfig demoCodec 1 ''u1|'' emptyWorld)
     = (Returns (createBaseConfig demoCodec 1), withConfig demoCodec 1 ''u1|'' emptyWorld) \<and>
   faults (withConfig demoCodec 1 ''u1|hello'' emptyWorld) = [] \<and>
   map_of (hashes (withConfig demoCodec 1 ''u1|hello'' emptyWorld) deviceConfigsHash)
     (uuidString demoCodec 1) = Some ''u1|hello'' \<and>
   unmarshalConfig demoCodec ''u1|hello'' = Some \<lparr>Id = Some ''u1'', body = ''hello''\<rparr> \<and>
   GetConfig demoCodec 1 (withConfig demoCodec 1 ''u1|hello'' emptyWorld)
     = (Returns \<lparr>Id = Some ''u1'', body = ''hello''\<rparr>, withConfig demoCodec 1 ''u1|hello'' emptyWorld)"
proof -
  have a: "faults emptyWorld = []" by (simp add: demo)
  have b: "map_of (hashes emptyWorld deviceConfigsHash) (uuidString demoCodec 1) = None"
    by (simp add: demo)
  have c: "marshalConfig demoCodec (createBaseConfig demoCodec 1) = Some ''u1|''"
    by (simp add: demo createBaseConfig_def)
  have d: "unmarshalConfig demoCodec ''u1|'' = Some (createBaseConfig demoCodec 1)"
    by (simp add: demo createBaseConfig_def)
  have e: "faults (withConfig demoCodec 1 ''u1|hello'' emptyWorld) = []"
    by (simp add: demo withConfig_def)
  have f: "map_of (hashes (withConfig demoCodec 1 ''u1|hello'' emptyWorld) deviceConfigsHash)
     (uuidString demoCodec 1) = Some ''u1|hello''"
    by (simp add: demo withConfig_def)
  have g: "unmarshalConfig demoCodec ''u1|hello'' = Some \<lparr>Id = Some ''u1'', body = ''hello''\<rparr>"
    by (simp add: demo)
  note T1 = GetConfig_seeds_once [where K = demoCodec and u = 1 and w = emptyWorld and v = "''u1|''"]
  note T2 = GetConfig_seeds_once [where K = demoCodec and u = 1
      and w = "withConfig demoCodec 1 ''u1|hello'' emptyWorld" and b = "''u1|hello''"
      and doc = "\<lparr>Id = Some ''u1'', body = ''hello''\<rparr>"]
  from T1 a b c d T2 e f g show ?thesis by simp
qed

subsection \<open>Device registry: DeviceGet\<close>



subsection \<open>Telemetry streams\<close>

text \<open>
  C9. A \<^verbatim>\<open>nil\<close> message is rejected by \<^verbatim>\<open>WriteLogs\<close>, \<^verbatim>\<open>WriteInfo\<close> and
  \<^verbatim>\<open>WriteMetrics\<close>. For a message whose device id parses to the UUID \<open>u\<close> (and that can
  be serialised, without I/O failure) each of them succeeds and appends the serialised
  message to the stream of \<open>u\<close>, in every state of the store and of the cache: the
  functions read neither the cache nor the device hashes. The logs reader (and the info
  reader) of \<open>u\<close> then yields what it yielded before, followed by the new entry.
\<close>
theorem writeTelemetry_unregistered:
  "WriteLogs K None w = (Fails NilMessage, w)
   \<and> WriteInfo K None w = (Fails NilMessage, w)
   \<and> WriteMetrics K None w = (Fails NilMessage, w)
   \<and> (uuidFromString K (DevID msg) = Some u \<longrightarrow> jsonMarshal K msg = Some buf \<longrightarrow> faults w = [] \<longrightarrow>
        fst (WriteLogs K (Some msg) w) = Returns () \<and>
        readerLines (GetLogsReader K u) (snd (WriteLogs K (Some msg) w))
          = readerLines (GetLogsReader K u) w @ [buf @ [CHR 0x0A]] \<and>
        fst (WriteInfo K (Some msg) w) = Returns () \<and>
        readerLines (GetInfoReader K u) (snd (WriteInfo K (Some msg) w))
          = readerLines (GetInfoReader K u) w @ [buf @ [CHR 0x0A]] \<and>
        fst (WriteMetrics K (Some msg) w) = Returns () \<and>
        streams (snd (WriteMetrics K (Some msg) w)) (deviceMetricsStream @ uuidString K u)
          = Some ((case streams w (deviceMetricsStream @ uuidString K u) of None \<Rightarrow> [] | Some old \<Rightarrow> old)
                  @ [mkStreamEntry buf]))"
  by (auto simp: WriteLogs_def WriteInfo_def WriteMetrics_def writeTelemetry_def
      writeProtobufToStream_def XAdd_none readerLines_def GetLogsReader_def GetInfoReader_def
      mkStreamEntry_def split: option.splits)

theorem writeTelemetry_unregistered_witness:
  "uuidFromString demoCodec (DevID \<lparr>DevID = ''u1'', payload = ''hello''\<rparr>) = Some 1 \<and>
   jsonMarshal demoCodec \<lparr>DevID = ''u1'', payload = ''hello''\<rparr> = Some ''hello'' \<and>
   faults emptyWorld = [] \<and>
   hashes emptyWorld deviceCertsHash = [] \<and>
   fst (WriteLogs demoCodec (Some \<lparr>DevID = ''u1'', payload = ''hello''\<rparr>) emptyWorld) = Returns () \<and>
   readerLines (GetLogsReader demoCodec 1)
     (snd (WriteLogs demoCodec (Some \<lparr>DevID = ''u1'', payload = ''hello''\<rparr>) emptyWorld))
     = [''hello'' @ [CHR 0x0A]]"
proof -
  have a: "uuidFromString demoCodec (DevID \<lparr>DevID = ''u1'', payload = ''hello''\<rparr>) = Some 1"
    by (simp add: demo)
  have b: "jsonMarshal demoCodec \<lparr>DevID = ''u1'', payload = ''hello''\<rparr> = Some ''hello''"
    by (simp add: demo)
  have c: "faults emptyWorld = []" by (simp add: demo)
  have d: "hashes emptyWorld deviceCertsHash = []" by (simp add: demo)
  have e: "readerLines (GetLogsReader demoCodec 1) emptyWorld = []"
    by (simp add: readerLines_def demo)
  note T = writeTelemetry_unregistered [where K = demoCodec and u = 1 and w = emptyWorld
      and msg = "\<lparr>DevID = ''u1'', payload = ''hello''\<rparr>" and buf = "''hello''"]
  from T a b c d e show ?thesis by simp
qed

end
